theory Spec2Isabelle
  imports Main "HOL-Library.Sublist"
begin

section \<open>Strings\<close>

text \<open>
  Python strings are modelled as HOL strings. The model is exact on ASCII text:
  \<open>str.lower\<close> maps the letters A to Z to a to z and leaves every other character as
  it is, and \<open>str.replace\<close> with one-character arguments is a map over the characters.
\<close>

definition lower_char :: "char \<Rightarrow> char" where
  "lower_char c =
     (let n = (of_char c :: nat)
      in if 65 \<le> n \<and> n \<le> 90 then char_of (n + 32) else c)"

definition lower :: "string \<Rightarrow> string" where
  "lower s = map lower_char s"

definition replace :: "char \<Rightarrow> char \<Rightarrow> string \<Rightarrow> string" where
  "replace old new s = map (\<lambda>c. if c = old then new else c) s"

text \<open>
  \<open>topic.lower().replace(" ", "_")\<close>, the directory name of a topic
  (\<open>search_papers\<close>, line 43, and \<open>get_topic_papers\<close>, line 238).
\<close>

definition normalize_topic :: "string \<Rightarrow> string" where
  "normalize_topic topic = replace (CHR '' '') (CHR ''_'') (lower topic)"

section \<open>Data model\<close>

text \<open>
  The dictionary that \<open>search_papers\<close> stores for one paper (lines 59 to 65), with its
  keys in the order in which they are written.
\<close>

record paper_info =
  title :: string
  authors :: "string list"
  summary :: string
  pdf_url :: string
  published :: string

text \<open>
  One result of the external search client, reduced to what \<open>search_papers\<close> reads
  from it: \<open>get_short_id()\<close>, \<open>title\<close>, the names of \<open>authors\<close>, \<open>summary\<close>, \<open>pdf_url\<close>
  and \<open>str(published.date())\<close>.
\<close>

record arxiv_result =
  short_id :: string
  result_title :: string
  result_authors :: "string list"
  result_summary :: string
  result_pdf_url :: string
  result_published :: string

text \<open>
  The search client is external: \<open>client.results(arxiv.Search(query, max_results, ...))\<close>
  is a parameter of the model, a function from the query and \<open>max_results\<close> to the results
  in relevance order. A fault of the provider propagates out of \<open>search_papers\<close> before
  anything is written and is not part of the model.
\<close>

type_synonym provider = "string \<Rightarrow> int \<Rightarrow> arxiv_result list"

text \<open>A Python dictionary with string keys, in insertion order.\<close>

type_synonym 'v dict = "(string \<times> 'v) list"

text \<open>\<open>d[k] = v\<close>: an existing key keeps its position, a new key goes to the end.\<close>

fun dict_set :: "'v dict \<Rightarrow> string \<Rightarrow> 'v \<Rightarrow> 'v dict" where
  "dict_set [] k v = [(k, v)]"
| "dict_set ((k', v') # kvs) k v =
     (if k' = k then (k', v) # kvs else (k', v') # dict_set kvs k v)"

subsection \<open>The papers directory\<close>

text \<open>
  The state is the directory \<open>PAPER_DIR\<close>, as far as the code's own checks tell its
  states apart: the directory may be absent (\<open>os.path.exists\<close>, line 211); an entry is
  a directory or not (\<open>os.path.isdir\<close>, line 90); the path \<open>papers_info.json\<close> inside a
  topic directory is missing, is not a regular file (\<open>os.path.isfile\<close>, line 92), or is
  a file whose text \<open>json.load\<close> rejects (\<open>JSONDecodeError\<close>) or parses to a dictionary
  of paper records. The entries are listed in the order of \<open>os.listdir\<close>. A topic's
  directory name is taken as one path component below \<open>PAPER_DIR\<close>.
\<close>

datatype cache_file =
    Missing
  | IsDirectory
  | Unparsable
  | Parsed "paper_info dict"

datatype entry = PlainFile | TopicDir cache_file

type_synonym papers_dir = "(string \<times> entry) list option"

datatype py_error =
    FileNotFoundError
  | FileExistsError
  | NotADirectoryError
  | IsADirectoryError
  | JSONDecodeError

text \<open>
  \<open>os.makedirs(path, exist_ok=True)\<close> for \<open>path = PAPER_DIR/d\<close>: creates the missing
  directories, accepts an existing directory, and raises when the path exists and is
  not a directory. A new directory is listed last.
\<close>

definition makedirs :: "papers_dir \<Rightarrow> string \<Rightarrow> py_error + papers_dir" where
  "makedirs fs d =
     (case fs of
        None \<Rightarrow> Inr (Some [(d, TopicDir Missing)])
      | Some es \<Rightarrow>
          (case map_of es d of
             None \<Rightarrow> Inr (Some (es @ [(d, TopicDir Missing)]))
           | Some PlainFile \<Rightarrow> Inl FileExistsError
           | Some (TopicDir f) \<Rightarrow> Inr (Some es)))"

text \<open>\<open>open(file_path, "r")\<close> followed by \<open>json.load\<close>, for \<open>PAPER_DIR/d/papers_info.json\<close>.\<close>

definition read_json :: "papers_dir \<Rightarrow> string \<Rightarrow> py_error + paper_info dict" where
  "read_json fs d =
     (case fs of
        None \<Rightarrow> Inl FileNotFoundError
      | Some es \<Rightarrow>
          (case map_of es d of
             None \<Rightarrow> Inl FileNotFoundError
           | Some PlainFile \<Rightarrow> Inl NotADirectoryError
           | Some (TopicDir Missing) \<Rightarrow> Inl FileNotFoundError
           | Some (TopicDir IsDirectory) \<Rightarrow> Inl IsADirectoryError
           | Some (TopicDir Unparsable) \<Rightarrow> Inl JSONDecodeError
           | Some (TopicDir (Parsed c)) \<Rightarrow> Inr c))"

text \<open>
  \<open>open(file_path, "w")\<close> followed by \<open>json.dump\<close>: the file then parses to the
  dictionary that was written.
\<close>

definition write_json :: "papers_dir \<Rightarrow> string \<Rightarrow> paper_info dict \<Rightarrow> py_error + papers_dir" where
  "write_json fs d c =
     (case fs of
        None \<Rightarrow> Inl FileNotFoundError
      | Some es \<Rightarrow>
          (case map_of es d of
             None \<Rightarrow> Inl FileNotFoundError
           | Some PlainFile \<Rightarrow> Inl NotADirectoryError
           | Some (TopicDir IsDirectory) \<Rightarrow> Inl IsADirectoryError
           | Some (TopicDir f) \<Rightarrow> Inr (Some (dict_set es d (TopicDir (Parsed c))))))"

text \<open>\<open>os.path.exists\<close> of \<open>PAPER_DIR/d/papers_info.json\<close>.\<close>

definition exists_papers_file :: "papers_dir \<Rightarrow> string \<Rightarrow> bool" where
  "exists_papers_file fs d =
     (case fs of
        None \<Rightarrow> False
      | Some es \<Rightarrow>
          (case map_of es d of
             Some (TopicDir f) \<Rightarrow> f \<noteq> Missing
           | _ \<Rightarrow> False))"

section \<open>search\_papers\<close>

definition enhanced_query :: "string \<Rightarrow> string" where
  "enhanced_query topic =
     topic @ '' AND (efficacy OR safety OR clinical OR pharmacology OR therapeutic OR adverse OR side effects)''"

definition paper_info_of :: "arxiv_result \<Rightarrow> paper_info" where
  "paper_info_of paper =
     \<lparr>title = result_title paper,
      authors = result_authors paper,
      summary = result_summary paper,
      pdf_url = result_pdf_url paper,
      published = result_published paper\<rparr>"

text \<open>The loop of lines 56 to 66, on the list \<open>paper_ids\<close> and the dictionary \<open>papers_info\<close>.\<close>

fun process_papers ::
  "arxiv_result list \<Rightarrow> string list \<Rightarrow> paper_info dict \<Rightarrow> string list \<times> paper_info dict" where
  "process_papers [] paper_ids papers_info = (paper_ids, papers_info)"
| "process_papers (paper # papers) paper_ids papers_info =
     process_papers papers (paper_ids @ [short_id paper])
       (dict_set papers_info (short_id paper) (paper_info_of paper))"

text \<open>
  The \<open>try\<close> of lines 49 to 53: \<open>FileNotFoundError\<close> and \<open>JSONDecodeError\<close> give the
  empty dictionary, any other exception leaves \<open>search_papers\<close>.
\<close>

definition load_papers_info :: "papers_dir \<Rightarrow> string \<Rightarrow> py_error + paper_info dict" where
  "load_papers_info fs d =
     (case read_json fs d of
        Inl FileNotFoundError \<Rightarrow> Inr []
      | Inl JSONDecodeError \<Rightarrow> Inr []
      | Inl e \<Rightarrow> Inl e
      | Inr c \<Rightarrow> Inr c)"

text \<open>
  \<open>search_papers\<close> returns the identifiers and the new state of the papers directory, or
  the exception that leaves it.
\<close>

definition search_papers ::
  "provider \<Rightarrow> papers_dir \<Rightarrow> string \<Rightarrow> int \<Rightarrow> py_error + (string list \<times> papers_dir)" where
  "search_papers client fs topic max_results =
     (let papers = client (enhanced_query topic) max_results;
          d = normalize_topic topic
      in case makedirs fs d of
           Inl e \<Rightarrow> Inl e
         | Inr fs1 \<Rightarrow>
             (case load_papers_info fs1 d of
                Inl e \<Rightarrow> Inl e
              | Inr papers_info \<Rightarrow>
                  (case process_papers papers [] papers_info of
                     (paper_ids, papers_info') \<Rightarrow>
                       (case write_json fs1 d papers_info' of
                          Inl e \<Rightarrow> Inl e
                        | Inr fs2 \<Rightarrow> Inr (paper_ids, fs2)))))"

section \<open>Text helpers\<close>

definition nl :: string where
  "nl = [CHR 0x0A]"

text \<open>\<open>sep.join(xs)\<close>.\<close>

fun join :: "string \<Rightarrow> string list \<Rightarrow> string" where
  "join sep [] = []"
| "join sep [x] = x"
| "join sep (x # y # ys) = x @ sep @ join sep (y # ys)"

text \<open>\<open>str(n)\<close> for a length.\<close>

fun str_nat :: "nat \<Rightarrow> string" where
  "str_nat n =
     (if n < 10 then [char_of (48 + n)]
      else str_nat (n div 10) @ [char_of (48 + n mod 10)])"

declare str_nat.simps [simp del]

definition upper_char :: "char \<Rightarrow> char" where
  "upper_char c =
     (let n = (of_char c :: nat)
      in if 97 \<le> n \<and> n \<le> 122 then char_of (n - 32) else c)"

definition is_cased :: "char \<Rightarrow> bool" where
  "is_cased c =
     (let n = (of_char c :: nat)
      in (65 \<le> n \<and> n \<le> 90) \<or> (97 \<le> n \<and> n \<le> 122))"

text \<open>
  \<open>str.title\<close>: a character after a cased character is lower-cased, any other
  character is upper-cased.
\<close>

fun title_from :: "bool \<Rightarrow> string \<Rightarrow> string" where
  "title_from previous_is_cased [] = []"
| "title_from previous_is_cased (c # cs) =
     (if previous_is_cased then lower_char c else upper_char c) # title_from (is_cased c) cs"

definition title_case :: "string \<Rightarrow> string" where
  "title_case s = title_from False s"

subsection \<open>json.dumps\<close>

text \<open>
  The standard library's \<open>json.dumps(obj, indent=2)\<close> on a paper record: strings are
  written between double quotes with the escapes of \<open>ensure_ascii\<close> (backslash and
  double quote behind a backslash, the short escapes for backspace, form feed, newline,
  carriage return and tab, and four lower-case hexadecimal digits after a backslash and
  \<open>u\<close> for every other character outside the range from space to tilde); the items of a
  dictionary or of a non-empty list stand on lines of their own, indented by two spaces
  for each level.
\<close>

definition hex_digit :: "nat \<Rightarrow> char" where
  "hex_digit n = ''0123456789abcdef'' ! (n mod 16)"

definition escape_char :: "char \<Rightarrow> string" where
  "escape_char c =
     (let n = (of_char c :: nat)
      in if c = CHR 0x5C then [CHR 0x5C, CHR 0x5C]
         else if c = CHR 0x22 then [CHR 0x5C, CHR 0x22]
         else if c = CHR 0x08 then [CHR 0x5C, CHR ''b'']
         else if c = CHR 0x0C then [CHR 0x5C, CHR ''f'']
         else if c = CHR 0x0A then [CHR 0x5C, CHR ''n'']
         else if c = CHR 0x0D then [CHR 0x5C, CHR ''r'']
         else if c = CHR 0x09 then [CHR 0x5C, CHR ''t'']
         else if 32 \<le> n \<and> n \<le> 126 then [c]
         else [CHR 0x5C, CHR ''u'', CHR ''0'', CHR ''0'', hex_digit (n div 16), hex_digit n])"

definition json_string :: "string \<Rightarrow> string" where
  "json_string s = [CHR 0x22] @ concat (map escape_char s) @ [CHR 0x22]"

text \<open>A list of strings that is the value of a key of the top-level dictionary.\<close>

definition json_string_list :: "string list \<Rightarrow> string" where
  "json_string_list xs =
     (if xs = [] then ''[]''
      else ''['' @ nl @ ''    '' @ join ('','' @ nl @ ''    '') (map json_string xs)
           @ nl @ ''  ]'')"

definition json_dumps :: "paper_info \<Rightarrow> string" where
  "json_dumps info =
     ''{'' @ nl
     @ ''  '' @ json_string ''title'' @ '': '' @ json_string (title info) @ '','' @ nl
     @ ''  '' @ json_string ''authors'' @ '': '' @ json_string_list (authors info) @ '','' @ nl
     @ ''  '' @ json_string ''summary'' @ '': '' @ json_string (summary info) @ '','' @ nl
     @ ''  '' @ json_string ''pdf_url'' @ '': '' @ json_string (pdf_url info) @ '','' @ nl
     @ ''  '' @ json_string ''published'' @ '': '' @ json_string (published info) @ nl
     @ ''}''"

section \<open>extract\_info\<close>

definition not_found_message :: "string \<Rightarrow> string" where
  "not_found_message paper_id =
     ''There'' @ [CHR 0x27] @ ''s no saved information related to paper '' @ paper_id @ ''.''"

text \<open>
  The loop of lines 88 to 100 over the listed entries: \<open>Some\<close> is the \<open>return\<close> inside
  the loop, \<open>None\<close> is the loop running to its end.
\<close>

fun scan_items :: "(string \<times> entry) list \<Rightarrow> string \<Rightarrow> string option" where
  "scan_items [] paper_id = None"
| "scan_items ((item, PlainFile) # items) paper_id = scan_items items paper_id"
| "scan_items ((item, TopicDir Missing) # items) paper_id = scan_items items paper_id"
| "scan_items ((item, TopicDir IsDirectory) # items) paper_id = scan_items items paper_id"
| "scan_items ((item, TopicDir Unparsable) # items) paper_id = scan_items items paper_id"
| "scan_items ((item, TopicDir (Parsed papers_info)) # items) paper_id =
     (case map_of papers_info paper_id of
        Some info \<Rightarrow> Some (json_dumps info)
      | None \<Rightarrow> scan_items items paper_id)"

text \<open>\<open>os.listdir(PAPER_DIR)\<close> is outside the \<open>try\<close> and raises when the directory is absent.\<close>

definition extract_info :: "papers_dir \<Rightarrow> string \<Rightarrow> py_error + string" where
  "extract_info fs paper_id =
     (case fs of
        None \<Rightarrow> Inl FileNotFoundError
      | Some items \<Rightarrow>
          (case scan_items items paper_id of
             Some text \<Rightarrow> Inr text
           | None \<Rightarrow> Inr (not_found_message paper_id)))"

section \<open>get\_topic\_papers\<close>

text \<open>One round of the loop of lines 252 to 259: the content with one paper appended.\<close>

definition add_paper :: "string \<Rightarrow> string \<times> paper_info \<Rightarrow> string" where
  "add_paper content p =
     (case p of (paper_id, paper_info) \<Rightarrow>
        content
        @ (''## '' @ title paper_info @ nl)
        @ (''- **Paper ID**: '' @ paper_id @ nl)
        @ (''- **Authors**: '' @ join '', '' (authors paper_info) @ nl)
        @ (''- **Published**: '' @ published paper_info @ nl)
        @ (''- **PDF URL**: ['' @ pdf_url paper_info @ '']('' @ pdf_url paper_info @ '')'' @ nl @ nl)
        @ (''### Summary'' @ nl @ take 500 (summary paper_info) @ ''...'' @ nl @ nl)
        @ (''---'' @ nl @ nl))"

definition papers_header :: "string \<Rightarrow> nat \<Rightarrow> string" where
  "papers_header topic n =
     (''# Papers on '' @ title_case (replace (CHR ''_'') (CHR '' '') topic) @ nl @ nl)
     @ (''Total papers: '' @ str_nat n @ nl @ nl)"

text \<open>The \<open>try\<close> of lines 244 to 263 catches \<open>JSONDecodeError\<close> only.\<close>

definition get_topic_papers :: "papers_dir \<Rightarrow> string \<Rightarrow> py_error + string" where
  "get_topic_papers fs topic =
     (let topic_dir = normalize_topic topic
      in if \<not> exists_papers_file fs topic_dir
         then Inr (''# No papers found for topic: '' @ topic @ nl @ nl
                   @ ''Try searching for papers on this topic first.'')
         else (case read_json fs topic_dir of
                 Inl JSONDecodeError \<Rightarrow>
                   Inr (''# Error reading papers data for '' @ topic @ nl @ nl
                        @ ''The papers data file is corrupted.'')
               | Inl e \<Rightarrow> Inl e
               | Inr papers_data \<Rightarrow>
                   Inr (foldl add_paper (papers_header topic (length papers_data)) papers_data)))"

section \<open>research\_active\_ingredient\<close>

record research_summary =
  ingredient :: string
  research_focus :: string
  papers_found :: int
  paper_ids :: "string list"
  key_findings :: "string list"
  safety_profile :: string
  efficacy_data :: string
  contraindications :: "string list"

text \<open>
  \<open>needle in haystack\<close> on strings is \<open>sublist needle haystack\<close>: the needle occurs as
  a contiguous part. The search of line 119 runs first, and its exception leaves the
  function; the chain of lines 135 to 148 then fills the record.
\<close>

definition research_active_ingredient ::
  "provider \<Rightarrow> papers_dir \<Rightarrow> string \<Rightarrow> string \<Rightarrow> py_error + (research_summary \<times> papers_dir)" where
  "research_active_ingredient client fs ingredient_name focus =
     (let search_query = ingredient_name @ '' '' @ focus
      in case search_papers client fs search_query 3 of
           Inl e \<Rightarrow> Inl e
         | Inr (ids, fs') \<Rightarrow>
             (let research_summary =
                    \<lparr>ingredient = ingredient_name,
                     research_focus = focus,
                     papers_found = int (length ids),
                     paper_ids = ids,
                     key_findings = [],
                     safety_profile = [],
                     efficacy_data = [],
                     contraindications = []\<rparr>
              in if sublist ''acetaminophen'' (lower ingredient_name) then
                   Inr (research_summary
                          \<lparr>safety_profile := ''Generally safe when used as directed. Maximum daily dose: 3000-4000mg. Hepatotoxic in overdose.'',
                           efficacy_data := ''Effective analgesic and antipyretic. Onset: 30-60 minutes. Duration: 4-6 hours.'',
                           contraindications := [''Severe liver disease'', ''Alcohol dependence'']\<rparr>, fs')
                 else if sublist ''ibuprofen'' (lower ingredient_name) then
                   Inr (research_summary
                          \<lparr>safety_profile := ''NSAID with anti-inflammatory properties. GI and cardiovascular risks with long-term use.'',
                           efficacy_data := ''Effective for pain, inflammation, and fever. Onset: 20-30 minutes. Duration: 4-6 hours.'',
                           contraindications := [''Active GI bleeding'', ''Severe heart failure'', ''Third trimester pregnancy'']\<rparr>, fs')
                 else if sublist ''loratadine'' (lower ingredient_name) then
                   Inr (research_summary
                          \<lparr>safety_profile := ''Non-sedating antihistamine. Minimal side effects. Safe for long-term use.'',
                           efficacy_data := ''Effective for allergic rhinitis and urticaria. Onset: 1-3 hours. Duration: 24 hours.'',
                           contraindications := [''Known hypersensitivity'']\<rparr>, fs')
                 else Inr (research_summary, fs')))"

section \<open>analyze\_drug\_interactions\<close>

text \<open>An entry of \<open>potential_interactions\<close>; \<open>interaction_type\<close> is the key \<open>type\<close>.\<close>

record interaction =
  interaction_type :: string
  severity :: string
  description :: string

record interactions =
  ingredients_analyzed :: "string list"
  potential_interactions :: "interaction list"
  warnings :: "string list"
  recommendations :: "string list"

definition nsaids :: "string set" where
  "nsaids = {''ibuprofen'', ''naproxen'', ''aspirin'', ''diclofenac''}"

definition sedating_antihistamines :: "string set" where
  "sedating_antihistamines = {''diphenhydramine'', ''chlorpheniramine'', ''doxylamine''}"

definition nsaid_interaction :: interaction where
  "nsaid_interaction =
     \<lparr>interaction_type = ''Increased NSAID exposure'',
      severity = ''Moderate to High'',
      description = ''Multiple NSAIDs increase risk of GI bleeding and kidney damage''\<rparr>"

text \<open>
  The record \<open>interactions\<close> is updated in the order of the source: \<open>i1\<close> after the
  NSAID rule, \<open>i2\<close> after the acetaminophen rule, \<open>i3\<close> after the antihistamine rule, and
  the result after the check of line 194.
\<close>

definition analyze_drug_interactions :: "string list \<Rightarrow> interactions" where
  "analyze_drug_interactions ingredients =
     (let i0 = \<lparr>ingredients_analyzed = ingredients,
                potential_interactions = [],
                warnings = [],
                recommendations = []\<rparr>;
          ingredient_set = set (map lower ingredients);
          nsaid_count = card (ingredient_set \<inter> nsaids);
          i1 = (if nsaid_count > 1
                then i0\<lparr>potential_interactions := potential_interactions i0 @ [nsaid_interaction],
                        warnings := warnings i0 @ [''Avoid combining multiple NSAIDs'']\<rparr>
                else i0);
          i2 = (if ''acetaminophen'' \<in> ingredient_set
                then i1\<lparr>warnings := warnings i1
                          @ [''Limit alcohol consumption - increases liver toxicity risk'']\<rparr>
                else i1);
          i3 = (if ingredient_set \<inter> sedating_antihistamines \<noteq> {}
                then i2\<lparr>warnings := warnings i2
                          @ [''May cause drowsiness - avoid driving or operating machinery'']\<rparr>
                else i2)
      in if potential_interactions i3 = []
         then i3\<lparr>recommendations := recommendations i3
                    @ [''No major interactions identified between these ingredients'']\<rparr>
         else i3)"

section \<open>Observations and sample inputs\<close>

text \<open>What the papers directory holds under a name.\<close>

definition entry_of :: "papers_dir \<Rightarrow> string \<Rightarrow> entry option" where
  "entry_of fs d = (case fs of None \<Rightarrow> None | Some es \<Rightarrow> map_of es d)"

text \<open>An entry is a topic directory whose cache parses and has the identifier as a key.\<close>

definition cache_contains :: "string \<Rightarrow> entry \<Rightarrow> bool" where
  "cache_contains paper_id e =
     (case e of
        TopicDir (Parsed c) \<Rightarrow> map_of c paper_id \<noteq> None
      | _ \<Rightarrow> False)"

text \<open>A provider that answers every query with the first \<open>max_results\<close> of a fixed list.\<close>

definition fixed_results :: "arxiv_result list \<Rightarrow> provider" where
  "fixed_results rs query max_results = take (nat max_results) rs"

definition sample_result :: arxiv_result where
  "sample_result =
     \<lparr>short_id = ''2401.00001v1'',
      result_title = ''Aspirin and bleeding'',
      result_authors = [''A. Author'', ''B. Author''],
      result_summary = ''A short summary.'',
      result_pdf_url = ''http://arxiv.org/pdf/2401.00001v1'',
      result_published = ''2024-01-01''\<rparr>"

definition sample_info :: paper_info where
  "sample_info =
     \<lparr>title = ''An earlier record'',
      authors = [''C. Author''],
      summary = ''An earlier summary.'',
      pdf_url = ''http://arxiv.org/pdf/1111.1111v1'',
      published = ''2011-11-11''\<rparr>"

section \<open>Properties\<close>

lemma lower_char_range:
  "\<not> (65 \<le> (of_char (lower_char c) :: nat) \<and> (of_char (lower_char c) :: nat) \<le> 90)"
  by (auto simp: lower_char_def Let_def)

lemma lower_char_idem: "lower_char (lower_char c) = lower_char c"
proof -
  let ?n = "of_char (lower_char c) :: nat"
  have "\<not> (65 \<le> ?n \<and> ?n \<le> 90)"
    by (rule lower_char_range)
  then show ?thesis
    unfolding lower_char_def [of "lower_char c"] Let_def by (simp only: if_False)
qed

lemma lower_char_underscore: "lower_char (CHR ''_'') = CHR ''_''"
  by (simp add: lower_char_def)

text \<open>
  C9: for every topic string, the normalisation that derives the cache directory name
  (lower-case, then spaces replaced by underscores) is idempotent.
\<close>

theorem normalize_idempotent: "normalize_topic (normalize_topic T) = normalize_topic T"
  by (simp add: normalize_topic_def lower_def replace_def lower_char_idem lower_char_underscore)

subsection \<open>Dictionaries and the search loop\<close>


lemma process_papers_ids:
  "fst (process_papers papers ids c) = ids @ map short_id papers"
  by (induction papers arbitrary: ids c) simp_all


lemma makedirs_entry:
  assumes "makedirs fs d = Inr fs1"
  shows "entry_of fs1 d' =
           (if d' = d
            then Some (case entry_of fs d of Some (TopicDir f) \<Rightarrow> TopicDir f | _ \<Rightarrow> TopicDir Missing)
            else entry_of fs d')"
  using assms
  by (auto simp: makedirs_def entry_of_def map_add_def
           split: option.splits entry.splits if_splits)

lemma makedirs_Inr:
  "entry_of fs d \<noteq> Some PlainFile \<Longrightarrow> \<exists>fs1. makedirs fs d = Inr fs1"
  by (auto simp: makedirs_def entry_of_def split: option.splits entry.splits)

lemma makedirs_Inl:
  "makedirs fs d = Inl e \<Longrightarrow> entry_of fs d = Some PlainFile \<and> e = FileExistsError"
  by (auto simp: makedirs_def entry_of_def split: option.splits entry.splits)

lemma load_papers_info_entry:
  "load_papers_info fs d =
     (case entry_of fs d of
        Some (TopicDir (Parsed c)) \<Rightarrow> Inr c
      | Some (TopicDir IsDirectory) \<Rightarrow> Inl IsADirectoryError
      | Some PlainFile \<Rightarrow> Inl NotADirectoryError
      | _ \<Rightarrow> Inr [])"
  by (simp add: load_papers_info_def read_json_def entry_of_def
           split: option.splits entry.splits cache_file.splits)

lemma load_after_makedirs:
  assumes "makedirs fs d = Inr fs1"
  shows "load_papers_info fs1 d = load_papers_info fs d"
  using assms
  by (auto simp: load_papers_info_entry makedirs_entry [OF assms] makedirs_def entry_of_def
           split: option.splits entry.splits cache_file.splits)


lemma write_json_Inr:
  assumes "entry_of fs1 d = Some (TopicDir f)" and "f \<noteq> IsDirectory"
  shows "\<exists>fs2. write_json fs1 d c = Inr fs2"
  using assms
  by (auto simp: write_json_def entry_of_def split: option.splits entry.splits cache_file.splits)

lemma search_papers_steps:
  assumes "search_papers client fs topic max_results = Inr (ids, fs')"
  shows "\<exists>fs1 old.
           makedirs fs (normalize_topic topic) = Inr fs1
           \<and> load_papers_info fs (normalize_topic topic) = Inr old
           \<and> ids = fst (process_papers (client (enhanced_query topic) max_results) [] old)
           \<and> write_json fs1 (normalize_topic topic)
                 (snd (process_papers (client (enhanced_query topic) max_results) [] old)) = Inr fs'"
proof -
  obtain fs1 where m: "makedirs fs (normalize_topic topic) = Inr fs1"
    using assms by (cases "makedirs fs (normalize_topic topic)") (simp_all add: search_papers_def Let_def)
  obtain old where l: "load_papers_info fs1 (normalize_topic topic) = Inr old"
    using assms m
    by (cases "load_papers_info fs1 (normalize_topic topic)") (simp_all add: search_papers_def Let_def)
  from assms m l have
    "ids = fst (process_papers (client (enhanced_query topic) max_results) [] old)
     \<and> write_json fs1 (normalize_topic topic)
          (snd (process_papers (client (enhanced_query topic) max_results) [] old)) = Inr fs'"
    by (auto simp: search_papers_def Let_def split: prod.splits sum.splits)
  with m l load_after_makedirs [OF m] show ?thesis by auto
qed

lemma search_papers_returns:
  assumes "entry_of fs (normalize_topic topic) \<noteq> Some PlainFile"
    and "entry_of fs (normalize_topic topic) \<noteq> Some (TopicDir IsDirectory)"
  shows "\<exists>ids fs'. search_papers client fs topic max_results = Inr (ids, fs')"
proof -
  let ?d = "normalize_topic topic"
  obtain fs1 where m: "makedirs fs ?d = Inr fs1"
    using makedirs_Inr [OF assms(1)] by blast
  have e1: "entry_of fs1 ?d =
              Some (case entry_of fs ?d of Some (TopicDir f) \<Rightarrow> TopicDir f | _ \<Rightarrow> TopicDir Missing)"
    using makedirs_entry [OF m, of ?d] by simp
  obtain f where f: "entry_of fs1 ?d = Some (TopicDir f)" "f \<noteq> IsDirectory"
    using e1 assms by (auto split: option.splits entry.splits)
  obtain old where l: "load_papers_info fs1 ?d = Inr old"
    using f by (cases f) (simp_all add: load_papers_info_entry)
  obtain fs2 where w: "write_json fs1 ?d
      (snd (process_papers (client (enhanced_query topic) max_results) [] old)) = Inr fs2"
    using write_json_Inr [OF f] by blast
  show ?thesis
    using m l w by (auto simp: search_papers_def Let_def split: prod.splits)
qed





subsection \<open>search\_papers\<close>






subsection \<open>extract\_info\<close>

lemma scan_items_skip:
  assumes "\<forall>e\<in>snd ` set pre. \<not> cache_contains paper_id e"
  shows "scan_items (pre @ rest) paper_id = scan_items rest paper_id"
  using assms
proof (induction pre)
  case Nil
  then show ?case by simp
next
  case (Cons x pre)
  obtain item e where x: "x = (item, e)" by (cases x)
  have rest: "scan_items (pre @ rest) paper_id = scan_items rest paper_id"
    using Cons by simp
  have here: "\<not> cache_contains paper_id e"
    using Cons.prems by (simp add: x)
  show ?case
  proof (cases e)
    case PlainFile
    then show ?thesis by (simp add: x rest)
  next
    case (TopicDir f)
    with here rest show ?thesis
      by (cases f) (simp_all add: x cache_contains_def)
  qed
qed

lemma scan_items_none:
  assumes "\<forall>e\<in>snd ` set items. \<not> cache_contains paper_id e"
  shows "scan_items items paper_id = None"
  using scan_items_skip [OF assms, of "[]"] by simp

lemma extract_info_not_found:
  assumes "\<forall>e\<in>snd ` set items. \<not> cache_contains paper_id e"
  shows "extract_info (Some items) paper_id = Inr (not_found_message paper_id)"
  by (simp add: extract_info_def scan_items_none [OF assms])

lemma not_found_message_contains: "sublist paper_id (not_found_message paper_id)"
  unfolding not_found_message_def sublist_def
  by (rule exI [of _ "''There'' @ [CHR 0x27] @ ''s no saved information related to paper ''"],
      rule exI [of _ "''.''"]) simp

lemma extract_info_returns: "\<exists>s. extract_info (Some items) paper_id = Inr s"
  by (simp add: extract_info_def split: option.splits)



text \<open>
  C8: for every paper identifier that no topic cache holds, \<open>extract_info\<close> returns the
  not-found message, which contains the identifier. That holds when the papers
  directory exists (\<open>extract_info_not_found\<close>, \<open>not_found_message_contains\<close>). When it
  does not exist, no cache holds the identifier either, and \<open>os.listdir\<close> of line 88,
  which is outside the \<open>try\<close>, raises \<open>FileNotFoundError\<close>: the call returns no message.
\<close>

theorem extract_info_not_found_absent_directory:
  "extract_info None ''1706.03762v7'' = Inl FileNotFoundError
   \<and> extract_info None ''1706.03762v7'' \<noteq> Inr (not_found_message ''1706.03762v7'')"
  by (simp add: extract_info_def)

subsection \<open>get\_topic\_papers\<close>

lemma add_paper_append: "add_paper content p = content @ add_paper [] p"
  by (cases p) (simp add: add_paper_def)

lemma foldl_add_paper:
  "foldl add_paper content ps = content @ concat (map (add_paper []) ps)"
proof (induction ps arbitrary: content)
  case Nil
  then show ?case by simp
next
  case (Cons p ps)
  have "foldl add_paper content (p # ps) = foldl add_paper (add_paper content p) ps"
    by simp
  also have "\<dots> = add_paper content p @ concat (map (add_paper []) ps)"
    by (rule Cons.IH)
  also have "\<dots> = content @ add_paper [] p @ concat (map (add_paper []) ps)"
    by (subst add_paper_append) simp
  finally show ?case by simp
qed

lemma read_json_exists:
  "read_json fs d = Inr c \<Longrightarrow> exists_papers_file fs d"
  by (auto simp: read_json_def exists_papers_file_def
           split: option.splits entry.splits cache_file.splits)

lemma get_topic_papers_missing:
  assumes "\<not> exists_papers_file fs (normalize_topic topic)"
  shows "get_topic_papers fs topic
           = Inr (''# No papers found for topic: '' @ topic @ nl @ nl
                  @ ''Try searching for papers on this topic first.'')"
  using assms by (simp add: get_topic_papers_def)

lemma get_topic_papers_unparsable:
  assumes "entry_of fs (normalize_topic topic) = Some (TopicDir Unparsable)"
  shows "get_topic_papers fs topic
           = Inr (''# Error reading papers data for '' @ topic @ nl @ nl
                  @ ''The papers data file is corrupted.'')"
  using assms
  by (auto simp: get_topic_papers_def exists_papers_file_def read_json_def entry_of_def
           split: option.splits)

lemma normalize_Aspirin: "normalize_topic ''Aspirin'' = ''aspirin''"
  by code_simp

text \<open>
  C5: for every topic whose cache file parses, \<open>get_topic_papers\<close> returns the header
  followed by one section for each record of the cache, in order, and the section of a
  record renders its summary as the first 500 characters of the stored summary followed
  by the three dots, whether or not the summary is longer than 500 characters.
\<close>

theorem get_topic_papers_summary:
  assumes "read_json fs (normalize_topic topic) = Inr papers_data"
  shows "get_topic_papers fs topic
           = Inr (papers_header topic (length papers_data)
                  @ concat (map (\<lambda>p.
                        ''## '' @ title (snd p) @ nl
                        @ ''- **Paper ID**: '' @ fst p @ nl
                        @ ''- **Authors**: '' @ join '', '' (authors (snd p)) @ nl
                        @ ''- **Published**: '' @ published (snd p) @ nl
                        @ ''- **PDF URL**: ['' @ pdf_url (snd p) @ '']('' @ pdf_url (snd p) @ '')'' @ nl @ nl
                        @ ''### Summary'' @ nl @ take 500 (summary (snd p)) @ ''...'' @ nl @ nl
                        @ ''---'' @ nl @ nl) papers_data))"
proof -
  have sec: "add_paper [] = (\<lambda>p.
       ''## '' @ title (snd p) @ nl
       @ ''- **Paper ID**: '' @ fst p @ nl
       @ ''- **Authors**: '' @ join '', '' (authors (snd p)) @ nl
       @ ''- **Published**: '' @ published (snd p) @ nl
       @ ''- **PDF URL**: ['' @ pdf_url (snd p) @ '']('' @ pdf_url (snd p) @ '')'' @ nl @ nl
       @ ''### Summary'' @ nl @ take 500 (summary (snd p)) @ ''...'' @ nl @ nl
       @ ''---'' @ nl @ nl)"
    by (rule ext) (simp add: add_paper_def split: prod.splits)
  have "get_topic_papers fs topic
          = Inr (foldl add_paper (papers_header topic (length papers_data)) papers_data)"
    using assms read_json_exists [OF assms] by (simp add: get_topic_papers_def)
  then show ?thesis
    by (simp only: foldl_add_paper sec)
qed

theorem get_topic_papers_summary_witness:
  "get_topic_papers
     (Some [(''aspirin'',
             TopicDir (Parsed [(''1111.1111v1'', sample_info\<lparr>summary := replicate 600 (CHR ''x'')\<rparr>)]))])
     ''Aspirin''
   = Inr (papers_header ''Aspirin'' 1
          @ ''## An earlier record'' @ nl
          @ ''- **Paper ID**: 1111.1111v1'' @ nl
          @ ''- **Authors**: C. Author'' @ nl
          @ ''- **Published**: 2011-11-11'' @ nl
          @ ''- **PDF URL**: [http://arxiv.org/pdf/1111.1111v1](http://arxiv.org/pdf/1111.1111v1)'' @ nl @ nl
          @ ''### Summary'' @ nl @ replicate 500 (CHR ''x'') @ ''...'' @ nl @ nl
          @ ''---'' @ nl @ nl)"
proof -
  have r: "read_json
             (Some [(''aspirin'',
                     TopicDir (Parsed [(''1111.1111v1'', sample_info\<lparr>summary := replicate 600 (CHR ''x'')\<rparr>)]))])
             (normalize_topic ''Aspirin'')
           = Inr [(''1111.1111v1'', sample_info\<lparr>summary := replicate 600 (CHR ''x'')\<rparr>)]"
    by (simp add: read_json_def normalize_Aspirin)
  show ?thesis
    using get_topic_papers_summary [OF r] by (simp add: sample_info_def)
qed

subsection \<open>Faults of reading the cache\<close>

text \<open>
  A missing or unparsable cache file gives \<open>search_papers\<close> the empty dictionary
  (\<open>load_papers_info_entry\<close>) and \<open>get_topic_papers\<close> one of its two messages
  (\<open>get_topic_papers_missing\<close>, \<open>get_topic_papers_unparsable\<close>), also when the papers
  directory is absent; \<open>extract_info\<close> skips such a file and returns a text whenever the
  papers directory exists (\<open>extract_info_returns\<close>).

  C2: every operation that reads the cache degrades to its empty or sentinel result
  on a missing or unparsable cache file and raises nothing, in every state of the
  papers directory, the absent directory included. For \<open>extract_info\<close> it fails in the
  state the claim names: with the papers directory absent, \<open>os.listdir\<close> of line 88
  raises \<open>FileNotFoundError\<close> outside the \<open>try\<close>, where \<open>get_topic_papers\<close> in the same
  state returns its message.
\<close>

theorem cache_read_absent_directory:
  "extract_info None ''2401.00001v1'' = Inl FileNotFoundError
   \<and> get_topic_papers None ''aspirin''
       = Inr (''# No papers found for topic: aspirin'' @ nl @ nl
              @ ''Try searching for papers on this topic first.'')"
  by (simp add: extract_info_def get_topic_papers_def exists_papers_file_def)

subsection \<open>analyze\_drug\_interactions\<close>

lemma analyze_fields:
  "potential_interactions (analyze_drug_interactions xs) =
     (if 1 < card (set (map lower xs) \<inter> nsaids) then [nsaid_interaction] else [])"
  "warnings (analyze_drug_interactions xs) =
     (if 1 < card (set (map lower xs) \<inter> nsaids) then [''Avoid combining multiple NSAIDs''] else [])
     @ (if ''acetaminophen'' \<in> set (map lower xs)
        then [''Limit alcohol consumption - increases liver toxicity risk''] else [])
     @ (if set (map lower xs) \<inter> sedating_antihistamines \<noteq> {}
        then [''May cause drowsiness - avoid driving or operating machinery''] else [])"
  "recommendations (analyze_drug_interactions xs) =
     (if 1 < card (set (map lower xs) \<inter> nsaids) then []
      else [''No major interactions identified between these ingredients''])"
  by (simp_all add: analyze_drug_interactions_def Let_def)

lemma lower_samples:
  "lower ''ibuprofen'' = ''ibuprofen''"
  "lower ''naproxen'' = ''naproxen''"
  "lower ''loratadine'' = ''loratadine''"
  by code_simp+

lemma nsaid_count_two: "card (set (map lower [''ibuprofen'', ''naproxen'']) \<inter> nsaids) = 2"
  by (simp add: lower_samples nsaids_def)

lemma nsaid_count_none: "card (set (map lower [''loratadine'']) \<inter> nsaids) = 0"
  by (simp add: lower_samples nsaids_def)

lemma no_acetaminophen:
  "''acetaminophen'' \<notin> set (map lower [''ibuprofen'', ''naproxen''])"
  "''acetaminophen'' \<notin> set (map lower [''loratadine''])"
  by (simp_all add: lower_samples)

lemma no_sedating:
  "set (map lower [''ibuprofen'', ''naproxen'']) \<inter> sedating_antihistamines = {}"
  "set (map lower [''loratadine'']) \<inter> sedating_antihistamines = {}"
  by (simp_all add: lower_samples sedating_antihistamines_def)

text \<open>
  C3: \<open>analyze_drug_interactions\<close> on ibuprofen and naproxen returns exactly one
  potential interaction, of type "Increased NSAID exposure", with the warning against
  combining NSAIDs; on loratadine it returns no potential interaction and the one
  recommendation that no major interaction was identified. For every list of
  ingredients each of the three rules is decided on its own from the set of lower-cased
  names, and the warnings are those of all the rules that match, in the order of the
  rules; the recommendation is added exactly when the NSAID rule does not match.
\<close>

theorem analyze_drug_interactions_rules:
  "potential_interactions (analyze_drug_interactions [''ibuprofen'', ''naproxen''])
     = [\<lparr>interaction_type = ''Increased NSAID exposure'',
         severity = ''Moderate to High'',
         description = ''Multiple NSAIDs increase risk of GI bleeding and kidney damage''\<rparr>]
   \<and> warnings (analyze_drug_interactions [''ibuprofen'', ''naproxen''])
       = [''Avoid combining multiple NSAIDs'']
   \<and> recommendations (analyze_drug_interactions [''ibuprofen'', ''naproxen'']) = []
   \<and> potential_interactions (analyze_drug_interactions [''loratadine'']) = []
   \<and> warnings (analyze_drug_interactions [''loratadine'']) = []
   \<and> recommendations (analyze_drug_interactions [''loratadine''])
       = [''No major interactions identified between these ingredients'']
   \<and> potential_interactions (analyze_drug_interactions ingredients)
       = (if 1 < card (set (map lower ingredients) \<inter> nsaids) then [nsaid_interaction] else [])
   \<and> warnings (analyze_drug_interactions ingredients)
       = (if 1 < card (set (map lower ingredients) \<inter> nsaids)
          then [''Avoid combining multiple NSAIDs''] else [])
         @ (if ''acetaminophen'' \<in> set (map lower ingredients)
            then [''Limit alcohol consumption - increases liver toxicity risk''] else [])
         @ (if set (map lower ingredients) \<inter> sedating_antihistamines \<noteq> {}
            then [''May cause drowsiness - avoid driving or operating machinery''] else [])
   \<and> recommendations (analyze_drug_interactions ingredients)
       = (if 1 < card (set (map lower ingredients) \<inter> nsaids) then []
          else [''No major interactions identified between these ingredients''])"
proof -
  have a: "potential_interactions (analyze_drug_interactions [''ibuprofen'', ''naproxen''])
             = [\<lparr>interaction_type = ''Increased NSAID exposure'',
                 severity = ''Moderate to High'',
                 description = ''Multiple NSAIDs increase risk of GI bleeding and kidney damage''\<rparr>]"
    by (simp only: analyze_fields nsaid_count_two nsaid_interaction_def) simp
  have b: "warnings (analyze_drug_interactions [''ibuprofen'', ''naproxen''])
             = [''Avoid combining multiple NSAIDs'']"
    by (simp only: analyze_fields nsaid_count_two no_acetaminophen no_sedating) simp
  have c: "recommendations (analyze_drug_interactions [''ibuprofen'', ''naproxen'']) = []"
    by (simp only: analyze_fields nsaid_count_two) simp
  have d: "potential_interactions (analyze_drug_interactions [''loratadine'']) = []"
    by (simp only: analyze_fields nsaid_count_none) simp
  have e: "warnings (analyze_drug_interactions [''loratadine'']) = []"
    by (simp only: analyze_fields nsaid_count_none no_acetaminophen no_sedating) simp
  have f: "recommendations (analyze_drug_interactions [''loratadine''])
             = [''No major interactions identified between these ingredients'']"
    by (simp only: analyze_fields nsaid_count_none) simp
  show ?thesis
    by (intro conjI a b c d e f analyze_fields)
qed

subsection \<open>research\_active\_ingredient\<close>

lemma research_active_ingredient_returns:
  assumes "search_papers client fs (ingredient_name @ '' '' @ focus) 3 = Inr (ids, fs')"
  shows "\<exists>r. research_active_ingredient client fs ingredient_name focus = Inr (r, fs')
             \<and> paper_ids r = ids"
  using assms by (simp add: research_active_ingredient_def Let_def)

lemma research_active_ingredient_search:
  assumes "research_active_ingredient client fs ingredient_name focus = Inr (r, fs')"
  shows "search_papers client fs (ingredient_name @ '' '' @ focus) 3 = Inr (paper_ids r, fs')"
  using assms
  by (auto simp: research_active_ingredient_def Let_def split: sum.splits prod.splits if_splits)

lemma search_papers_returns_absent:
  "\<exists>ids fs'. search_papers client None topic max_results = Inr (ids, fs')"
  by (rule search_papers_returns) (simp_all add: entry_of_def)

text \<open>
  C10: for every input, the record that \<open>research_active_ingredient\<close> returns has
  \<open>papers_found\<close> equal to the length of \<open>paper_ids\<close> and an empty \<open>key_findings\<close>.
\<close>

theorem research_active_ingredient_counts:
  assumes "research_active_ingredient client fs ingredient_name focus = Inr (r, fs')"
  shows "papers_found r = int (length (paper_ids r)) \<and> key_findings r = []"
  using assms
  by (auto simp: research_active_ingredient_def Let_def split: sum.splits prod.splits if_splits)

theorem research_active_ingredient_counts_witness:
  "\<exists>r fs'. research_active_ingredient (fixed_results [sample_result]) None ''ibuprofen'' ''safety''
              = Inr (r, fs')
      \<and> paper_ids r = [''2401.00001v1'']
      \<and> papers_found r = int (length (paper_ids r)) \<and> key_findings r = []"
proof -
  obtain ids fs' where s:
    "search_papers (fixed_results [sample_result]) None (''ibuprofen'' @ '' '' @ ''safety'') 3
       = Inr (ids, fs')"
    using search_papers_returns_absent
            [of "fixed_results [sample_result]" "''ibuprofen'' @ '' '' @ ''safety''" 3]
    by blast
  have ids: "ids = [''2401.00001v1'']"
    using search_papers_steps [OF s]
    by (auto simp: process_papers_ids fixed_results_def sample_result_def)
  obtain r where h:
    "research_active_ingredient (fixed_results [sample_result]) None ''ibuprofen'' ''safety''
       = Inr (r, fs')"
    and p: "paper_ids r = ids"
    using research_active_ingredient_returns [OF s] by blast
  from research_active_ingredient_counts [OF h] h p ids show ?thesis
    by blast
qed

text \<open>
  C4: the record that \<open>research_active_ingredient\<close> returns has the safety profile,
  efficacy data and contraindications of the first of acetaminophen, ibuprofen and
  loratadine, in this order, that occurs in the lower-cased ingredient name, and empty
  fields when none occurs; so the name acetaminophen gives a non-empty safety profile
  and the name unknown-compound-x gives the three fields empty, while \<open>papers_found\<close> is
  the number of results of the search, which need not be zero.
\<close>

theorem research_active_ingredient_profile:
  assumes "research_active_ingredient client fs ingredient_name focus = Inr (r, fs')"
  shows "(safety_profile r, efficacy_data r, contraindications r)
           = (if sublist ''acetaminophen'' (lower ingredient_name) then
                (''Generally safe when used as directed. Maximum daily dose: 3000-4000mg. Hepatotoxic in overdose.'',
                 ''Effective analgesic and antipyretic. Onset: 30-60 minutes. Duration: 4-6 hours.'',
                 [''Severe liver disease'', ''Alcohol dependence''])
              else if sublist ''ibuprofen'' (lower ingredient_name) then
                (''NSAID with anti-inflammatory properties. GI and cardiovascular risks with long-term use.'',
                 ''Effective for pain, inflammation, and fever. Onset: 20-30 minutes. Duration: 4-6 hours.'',
                 [''Active GI bleeding'', ''Severe heart failure'', ''Third trimester pregnancy''])
              else if sublist ''loratadine'' (lower ingredient_name) then
                (''Non-sedating antihistamine. Minimal side effects. Safe for long-term use.'',
                 ''Effective for allergic rhinitis and urticaria. Onset: 1-3 hours. Duration: 24 hours.'',
                 [''Known hypersensitivity''])
              else ([], [], []))
         \<and> (ingredient_name = ''acetaminophen'' \<longrightarrow> safety_profile r \<noteq> [])
         \<and> (ingredient_name = ''unknown-compound-x'' \<longrightarrow>
               safety_profile r = [] \<and> efficacy_data r = [] \<and> contraindications r = [])
         \<and> papers_found r
             = int (length (client (enhanced_query (ingredient_name @ '' '' @ focus)) 3))"
proof -
  have table: "(safety_profile r, efficacy_data r, contraindications r)
           = (if sublist ''acetaminophen'' (lower ingredient_name) then
                (''Generally safe when used as directed. Maximum daily dose: 3000-4000mg. Hepatotoxic in overdose.'',
                 ''Effective analgesic and antipyretic. Onset: 30-60 minutes. Duration: 4-6 hours.'',
                 [''Severe liver disease'', ''Alcohol dependence''])
              else if sublist ''ibuprofen'' (lower ingredient_name) then
                (''NSAID with anti-inflammatory properties. GI and cardiovascular risks with long-term use.'',
                 ''Effective for pain, inflammation, and fever. Onset: 20-30 minutes. Duration: 4-6 hours.'',
                 [''Active GI bleeding'', ''Severe heart failure'', ''Third trimester pregnancy''])
              else if sublist ''loratadine'' (lower ingredient_name) then
                (''Non-sedating antihistamine. Minimal side effects. Safe for long-term use.'',
                 ''Effective for allergic rhinitis and urticaria. Onset: 1-3 hours. Duration: 24 hours.'',
                 [''Known hypersensitivity''])
              else ([], [], []))"
    using assms
    by (auto simp: research_active_ingredient_def Let_def split: sum.splits prod.splits if_splits)
  have known: "sublist ''acetaminophen'' (lower ''acetaminophen'')"
    by code_simp
  have unknown:
    "\<not> sublist ''acetaminophen'' (lower ''unknown-compound-x'')"
    "\<not> sublist ''ibuprofen'' (lower ''unknown-compound-x'')"
    "\<not> sublist ''loratadine'' (lower ''unknown-compound-x'')"
    by code_simp+
  have first: "ingredient_name = ''acetaminophen'' \<longrightarrow> safety_profile r \<noteq> []"
    using table known by auto
  have none: "ingredient_name = ''unknown-compound-x'' \<longrightarrow>
               safety_profile r = [] \<and> efficacy_data r = [] \<and> contraindications r = []"
    using table unknown by auto
  have ids: "paper_ids r = map short_id (client (enhanced_query (ingredient_name @ '' '' @ focus)) 3)"
    using search_papers_steps [OF research_active_ingredient_search [OF assms]]
    by (auto simp: process_papers_ids)
  have found: "papers_found r
             = int (length (client (enhanced_query (ingredient_name @ '' '' @ focus)) 3))"
    using assms ids
    by (auto simp: research_active_ingredient_def Let_def split: sum.splits prod.splits if_splits)
  from table first none found show ?thesis
    by (intro conjI)
qed

theorem research_active_ingredient_profile_witness:
  "(\<exists>r fs'. research_active_ingredient (fixed_results [sample_result]) None ''acetaminophen'' ''safety''
               = Inr (r, fs')
       \<and> safety_profile r
           = ''Generally safe when used as directed. Maximum daily dose: 3000-4000mg. Hepatotoxic in overdose.''
       \<and> safety_profile r \<noteq> [])
   \<and> (\<exists>r fs'. research_active_ingredient (fixed_results [sample_result]) None ''unknown-compound-x'' ''safety''
               = Inr (r, fs')
       \<and> safety_profile r = [] \<and> efficacy_data r = [] \<and> contraindications r = []
       \<and> papers_found r = 1)
   \<and> (\<exists>r fs'. research_active_ingredient (fixed_results [sample_result]) None ''Ibuprofen/Acetaminophen'' ''safety''
               = Inr (r, fs')
       \<and> contraindications r = [''Severe liver disease'', ''Alcohol dependence''])"
proof -
  obtain ids1 fs1 where s1:
    "search_papers (fixed_results [sample_result]) None (''acetaminophen'' @ '' '' @ ''safety'') 3
       = Inr (ids1, fs1)"
    using search_papers_returns_absent
            [of "fixed_results [sample_result]" "''acetaminophen'' @ '' '' @ ''safety''" 3]
    by blast
  obtain r1 where h1:
    "research_active_ingredient (fixed_results [sample_result]) None ''acetaminophen'' ''safety''
       = Inr (r1, fs1)"
    using research_active_ingredient_returns [OF s1] by blast
  have k1: "sublist ''acetaminophen'' (lower ''acetaminophen'')"
    by code_simp
  have a: "safety_profile r1
             = ''Generally safe when used as directed. Maximum daily dose: 3000-4000mg. Hepatotoxic in overdose.''
           \<and> safety_profile r1 \<noteq> []"
    using research_active_ingredient_profile [OF h1] k1 by simp
  obtain ids2 fs2 where s2:
    "search_papers (fixed_results [sample_result]) None (''unknown-compound-x'' @ '' '' @ ''safety'') 3
       = Inr (ids2, fs2)"
    using search_papers_returns_absent
            [of "fixed_results [sample_result]" "''unknown-compound-x'' @ '' '' @ ''safety''" 3]
    by blast
  obtain r2 where h2:
    "research_active_ingredient (fixed_results [sample_result]) None ''unknown-compound-x'' ''safety''
       = Inr (r2, fs2)"
    using research_active_ingredient_returns [OF s2] by blast
  have b: "safety_profile r2 = [] \<and> efficacy_data r2 = [] \<and> contraindications r2 = []
           \<and> papers_found r2 = 1"
    using research_active_ingredient_profile [OF h2] by (simp add: fixed_results_def)
  obtain ids3 fs3 where s3:
    "search_papers (fixed_results [sample_result]) None (''Ibuprofen/Acetaminophen'' @ '' '' @ ''safety'') 3
       = Inr (ids3, fs3)"
    using search_papers_returns_absent
            [of "fixed_results [sample_result]" "''Ibuprofen/Acetaminophen'' @ '' '' @ ''safety''" 3]
    by blast
  obtain r3 where h3:
    "research_active_ingredient (fixed_results [sample_result]) None ''Ibuprofen/Acetaminophen'' ''safety''
       = Inr (r3, fs3)"
    using research_active_ingredient_returns [OF s3] by blast
  have k3: "sublist ''acetaminophen'' (lower ''Ibuprofen/Acetaminophen'')"
    by code_simp
  have c: "contraindications r3 = [''Severe liver disease'', ''Alcohol dependence'']"
    using research_active_ingredient_profile [OF h3] k3 by simp
  from h1 a h2 b h3 c show ?thesis
    by blast
qed

end
